theory Spec2Isabelle
  imports Complex_Main "HOL-Library.Sublist" "HOL-Library.Char_ord" "HOL-Library.List_Lexorder"
begin

section \<open>AirVision: the cleaning and analysis pipeline\<close>

text \<open>
  The repository is a pandas program: \<^verbatim>\<open>data_processing.py\<close> loads and cleans a table of
  air-quality readings, \<^verbatim>\<open>analysis.py\<close> computes a composite index, outlier flags and
  time-bucketed means. This theory embeds those functions over the following data model.

  \<^item> A pandas column is a \<open>column\<close>: numbers of dtype float64 or int64 (\<open>NumCol\<close>), text
    held in an object column (\<open>ObjCol\<close>: Date, Time, Day, Month, and the timestamps of
    DateTime written as text), booleans (\<open>BoolCol\<close>) and a categorical with its ordered
    categories (\<open>CatCol\<close>). A cell is an \<open>option\<close>: \<open>None\<close> is pandas' missing value
    (NaN). The behaviour of pandas is that of its versions 2.x, on which the program runs.
  \<^item> A DataFrame that the program receives is a \<open>table\<close>: its named columns in order, rows
    labelled \<open>0, 1, ...\<close> as \<^verbatim>\<open>read_csv\<close> labels them, column names distinct as
    \<^verbatim>\<open>read_csv\<close> makes them. A DataFrame that the program builds is a \<open>frame\<close>: the
    list of its row labels and its columns.
  \<^item> Floats are modelled by real numbers: rounding, overflow and infinities are outside
    the model.
  \<^item> Exceptions are values of \<open>error\<close>, named as Python names them.
\<close>

datatype column =
    NumCol "real option list"
  | ObjCol "string option list"
  | BoolCol "bool option list"
  | CatCol "string list" "string option list"

type_synonym table = "(string \<times> column) list"

record frame =
  index :: "nat list"
  cols :: table

datatype error =
    KeyError string
  | ValueError string
  | TypeError string
  | Exception string

fun col_len :: "column \<Rightarrow> nat" where
  "col_len (NumCol xs) = length xs"
| "col_len (ObjCol xs) = length xs"
| "col_len (BoolCol xs) = length xs"
| "col_len (CatCol cs xs) = length xs"

text \<open>\<open>has_value\<close>: the column has a cell that is not missing; \<open>has_absent\<close>: it has a
  missing cell.\<close>

fun has_value :: "column \<Rightarrow> bool" where
  "has_value (NumCol xs) = (\<exists>x \<in> set xs. x \<noteq> None)"
| "has_value (ObjCol xs) = (\<exists>x \<in> set xs. x \<noteq> None)"
| "has_value (BoolCol xs) = (\<exists>x \<in> set xs. x \<noteq> None)"
| "has_value (CatCol cs xs) = (\<exists>x \<in> set xs. x \<noteq> None)"

fun has_absent :: "column \<Rightarrow> bool" where
  "has_absent (NumCol xs) = (None \<in> set xs)"
| "has_absent (ObjCol xs) = (None \<in> set xs)"
| "has_absent (BoolCol xs) = (None \<in> set xs)"
| "has_absent (CatCol cs xs) = (None \<in> set xs)"

fun is_numeric :: "column \<Rightarrow> bool" where
  "is_numeric (NumCol xs) = True"
| "is_numeric c = False"

definition names :: "table \<Rightarrow> string list" where
  "names df = map fst df"

text \<open>\<open>df[name]\<close>: the column, or Python's KeyError.\<close>

definition getitem :: "table \<Rightarrow> string \<Rightarrow> error + column" where
  "getitem df name = (case map_of df name of None \<Rightarrow> Inl (KeyError name) | Some c \<Rightarrow> Inr c)"

text \<open>\<open>nrows\<close>: the number of rows of a table (all its columns have that length).\<close>

definition nrows :: "table \<Rightarrow> nat" where
  "nrows df = (case df of [] \<Rightarrow> 0 | (n, c) # rest \<Rightarrow> col_len c)"

section \<open>data\_processing.py: handle\_missing\_values\<close>

subsection \<open>The four pandas steps on a float column\<close>

text \<open>
  \<^verbatim>\<open>interpolate(method='linear', limit_direction='both')\<close> treats the rows as equally
  spaced and calls \<^verbatim>\<open>numpy.interp\<close> at the missing positions, over the positions that hold
  a value: between two values it takes the point on the straight line, before the first
  value it takes the first value and after the last value the last one. A column with no
  value at all is returned as it is.

  \<open>next_valid i xs\<close> is the first value of \<open>xs\<close> with its position, the positions of \<open>xs\<close>
  starting at \<open>i\<close>; \<open>interp_from prev i xs\<close> walks the column from position \<open>i\<close> with the
  last value seen so far in \<open>prev\<close>.
\<close>

fun next_valid :: "nat \<Rightarrow> real option list \<Rightarrow> (nat \<times> real) option" where
  "next_valid i [] = None"
| "next_valid i (Some v # xs) = Some (i, v)"
| "next_valid i (None # xs) = next_valid (Suc i) xs"

fun interp_from :: "(nat \<times> real) option \<Rightarrow> nat \<Rightarrow> real option list \<Rightarrow> real option list" where
  "interp_from prev i [] = []"
| "interp_from prev i (Some v # xs) = Some v # interp_from (Some (i, v)) (Suc i) xs"
| "interp_from prev i (None # xs) =
     (case (prev, next_valid (Suc i) xs) of
        (None, None) \<Rightarrow> None
      | (None, Some (k, b)) \<Rightarrow> Some b
      | (Some (j, a), None) \<Rightarrow> Some a
      | (Some (j, a), Some (k, b)) \<Rightarrow>
          Some (a + (b - a) / (real k - real j) * (real i - real j)))
     # interp_from prev (Suc i) xs"

definition interpolate :: "real option list \<Rightarrow> real option list" where
  "interpolate xs = interp_from None 0 xs"

text \<open>\<^verbatim>\<open>fillna(method='ffill')\<close>: a missing cell takes the nearest value before it.\<close>

fun ffill_from :: "real option \<Rightarrow> real option list \<Rightarrow> real option list" where
  "ffill_from prev [] = []"
| "ffill_from prev (Some v # xs) = Some v # ffill_from (Some v) xs"
| "ffill_from prev (None # xs) = prev # ffill_from prev xs"

definition ffill :: "real option list \<Rightarrow> real option list" where
  "ffill xs = ffill_from None xs"

text \<open>\<^verbatim>\<open>fillna(method='bfill')\<close>: a missing cell takes the nearest value after it.\<close>

fun bfill :: "real option list \<Rightarrow> real option list" where
  "bfill [] = []"
| "bfill (Some v # xs) = Some v # bfill xs"
| "bfill (None # xs) = (case bfill xs of [] \<Rightarrow> [None] | y # ys \<Rightarrow> y # y # ys)"

text \<open>\<^verbatim>\<open>Series.mean()\<close> skips the missing cells; with no value left it is NaN.\<close>

definition dropna :: "'a option list \<Rightarrow> 'a list" where
  "dropna xs = map the (filter (\<lambda>x. x \<noteq> None) xs)"

definition mean :: "real option list \<Rightarrow> real option" where
  "mean xs = (let vs = dropna xs in
     if vs = [] then None else Some (sum_list vs / real (length vs)))"

text \<open>\<^verbatim>\<open>fillna(value)\<close>: a missing cell takes the value; filling with NaN changes nothing.\<close>

definition fillna :: "real option \<Rightarrow> real option list \<Rightarrow> real option list" where
  "fillna v xs = map (\<lambda>x. case x of None \<Rightarrow> v | Some y \<Rightarrow> Some y) xs"

subsection \<open>The function\<close>

text \<open>
  The body of the loop of \<^verbatim>\<open>handle_missing_values\<close>, lines 52 to 61, on one float column.
\<close>

definition impute :: "real option list \<Rightarrow> real option list" where
  "impute xs =
     (let a = interpolate xs;
          b = ffill a;
          c = bfill b
      in fillna (mean c) c)"

text \<open>
  One round of the loop. Date and Time are skipped by name. The four steps are numeric:
  on a text column pandas raises a TypeError at line 61, where the mean is taken whether
  or not a cell is missing (text cannot be averaged). The model stops with that error on
  every column that does not hold numbers; what pandas does with a boolean or a
  categorical column is not followed.
\<close>

definition handle_missing_col :: "string \<times> column \<Rightarrow> error + string \<times> column" where
  "handle_missing_col nc =
     (if fst nc \<in> {''Date'', ''Time''} then Inr nc
      else case snd nc of
             NumCol xs \<Rightarrow> Inr (fst nc, NumCol (impute xs))
           | _ \<Rightarrow> Inl (TypeError (fst nc)))"

text \<open>
  \<^verbatim>\<open>handle_missing_values\<close> copies the table and runs the loop over the copy's columns,
  so the caller's table is not touched: the model is a function from the table to the
  new table. The first exception ends it.
\<close>

fun handle_missing_values :: "table \<Rightarrow> error + table" where
  "handle_missing_values [] = Inr []"
| "handle_missing_values (nc # rest) =
     (case handle_missing_col nc of
        Inl e \<Rightarrow> Inl e
      | Inr nc' \<Rightarrow>
          (case handle_missing_values rest of
             Inl e \<Rightarrow> Inl e
           | Inr rest' \<Rightarrow> Inr (nc' # rest')))"

text \<open>The tables of the data model of the pipeline: every field but Date and Time is a
  float column.\<close>

definition numeric_fields :: "table \<Rightarrow> bool" where
  "numeric_fields df = (\<forall>nc \<in> set df. fst nc \<notin> {''Date'', ''Time''} \<longrightarrow> is_numeric (snd nc))"

definition fully_populated :: "table \<Rightarrow> bool" where
  "fully_populated df = (\<forall>nc \<in> set df. fst nc \<notin> {''Date'', ''Time''} \<longrightarrow> \<not> has_absent (snd nc))"

section \<open>data\_processing.py: load\_and\_clean\_data\<close>

text \<open>
  Reading and parsing the file is pandas' work: the model starts from what
  \<^verbatim>\<open>pd.read_csv(file_path, sep=";", decimal=",")\<close> delivers, the parsed table or the
  text of the exception it raised.
\<close>

text \<open>\<^verbatim>\<open>str.rstrip(';')\<close> removes every trailing semicolon.\<close>

definition rstrip :: "char \<Rightarrow> string \<Rightarrow> string" where
  "rstrip ch s = rev (dropWhile (\<lambda>x. x = ch) (rev s))"

text \<open>\<^verbatim>\<open>str.contains('^Unnamed')\<close>: the name begins with \<open>Unnamed\<close>.\<close>

definition unnamed :: "string \<Rightarrow> bool" where
  "unnamed name = prefix ''Unnamed'' name"

text \<open>
  \<^verbatim>\<open>Series.replace(-200, np.nan)\<close>: the cells equal to the number \<open>-200\<close> become NaN. Text,
  boolean and categorical cells are never equal to that number: a text cell written
  \<open>-200\<close> stays as it is.
\<close>

fun replace_sentinel :: "column \<Rightarrow> column" where
  "replace_sentinel (NumCol xs) = NumCol (map (\<lambda>x. if x = Some (- 200) then None else x) xs)"
| "replace_sentinel c = c"

definition strip_names :: "table \<Rightarrow> table" where
  "strip_names df = map (\<lambda>nc. (rstrip CHR '';'' (fst nc), snd nc)) df"

definition drop_unnamed :: "table \<Rightarrow> table" where
  "drop_unnamed df = filter (\<lambda>nc. \<not> unnamed (fst nc)) df"

definition replace_all :: "table \<Rightarrow> table" where
  "replace_all df =
     map (\<lambda>nc. if fst nc \<notin> {''Date'', ''Time''} then (fst nc, replace_sentinel (snd nc)) else nc) df"

definition load_and_clean_data :: "string + table \<Rightarrow> error + table" where
  "load_and_clean_data parsed =
     (case parsed of
        Inl msg \<Rightarrow> Inl (Exception (''Error loading data: '' @ msg))
      | Inr df \<Rightarrow> Inr (replace_all (drop_unnamed (strip_names df))))"

text \<open>
  \<open>holds_sentinel c\<close>: some cell of the column is the sentinel, that is the number \<open>-200\<close>
  in a column of numbers and the field written \<open>-200\<close> in a column of text
  (\<^verbatim>\<open>read_csv\<close> delivers a column as text as soon as one of its fields is not a number).
\<close>

fun holds_sentinel :: "column \<Rightarrow> bool" where
  "holds_sentinel (NumCol xs) = (Some (- 200) \<in> set xs)"
| "holds_sentinel (ObjCol xs) = (Some ''-200'' \<in> set xs)"
| "holds_sentinel (BoolCol xs) = False"
| "holds_sentinel (CatCol cs xs) = (Some ''-200'' \<in> set xs)"

section \<open>DataFrames that the program builds\<close>

text \<open>
  A Series taken from the input table carries the row labels \<open>0, 1, ...\<close>; it is written as
  a \<open>column\<close>, its label being the position. \<open>reindex labels s\<close> is the series at the
  given labels, NaN at a label that the series does not have.
\<close>

definition pick :: "nat list \<Rightarrow> 'a option list \<Rightarrow> 'a option list" where
  "pick labels xs = map (\<lambda>l. if l < length xs then xs ! l else None) labels"

fun reindex :: "nat list \<Rightarrow> column \<Rightarrow> column" where
  "reindex labels (NumCol xs) = NumCol (pick labels xs)"
| "reindex labels (ObjCol xs) = ObjCol (pick labels xs)"
| "reindex labels (BoolCol xs) = BoolCol (pick labels xs)"
| "reindex labels (CatCol cs xs) = CatCol cs (pick labels xs)"

text \<open>\<^verbatim>\<open>pd.DataFrame()\<close>: no rows, no columns.\<close>

definition empty_frame :: frame where
  "empty_frame = \<lparr>index = [], cols = []\<rparr>"

text \<open>Storing a column under a name replaces the column of that name or appends a new one.\<close>

definition set_column :: "table \<Rightarrow> string \<Rightarrow> column \<Rightarrow> table" where
  "set_column t name c =
     (if name \<in> set (map fst t)
      then map (\<lambda>nc. if fst nc = name then (name, c) else nc) t
      else t @ [(name, c)])"

text \<open>
  \<^verbatim>\<open>frame[name] = series\<close>. pandas first makes sure that the frame has row labels
  (\<^verbatim>\<open>DataFrame._ensure_valid_index\<close>): a frame with no rows takes the labels of a series
  that is not empty, and the columns it already has are filled with NaN at the new labels.
  Then the series is aligned to the labels of the frame and stored.
\<close>

definition setitem_series :: "frame \<Rightarrow> string \<Rightarrow> column \<Rightarrow> frame" where
  "setitem_series f name s =
     (let f' = (if index f = [] \<and> 0 < col_len s
                then \<lparr>index = [0..<col_len s],
                      cols = map (\<lambda>nc. (fst nc, reindex [0..<col_len s] (snd nc))) (cols f)\<rparr>
                else f)
      in \<lparr>index = index f', cols = set_column (cols f') name (reindex (index f') s)\<rparr>)"

text \<open>
  \<^verbatim>\<open>frame[name] = 0\<close>, a number: the column holds the number once per row of the frame.
  A number is not list-like, so a frame with no rows keeps having no rows, and the new
  column is empty.
\<close>

definition setitem_scalar :: "frame \<Rightarrow> string \<Rightarrow> real \<Rightarrow> frame" where
  "setitem_scalar f name v =
     \<lparr>index = index f, cols = set_column (cols f) name (NumCol (replicate (length (index f)) (Some v)))\<rparr>"

section \<open>analysis.py: calculate\_aqi\<close>

text \<open>\<^verbatim>\<open>Series.max()\<close> and \<^verbatim>\<open>Series.min()\<close> skip the missing cells; with no value left they
  are NaN.\<close>

definition series_max :: "real option list \<Rightarrow> real option" where
  "series_max xs = (case dropna xs of [] \<Rightarrow> None | v # vs \<Rightarrow> Some (fold max vs v))"

definition series_min :: "real option list \<Rightarrow> real option" where
  "series_min xs = (case dropna xs of [] \<Rightarrow> None | v # vs \<Rightarrow> Some (fold min vs v))"

text \<open>\<^verbatim>\<open>a > b\<close> on floats: false as soon as one side is NaN.\<close>

fun gt :: "real option \<Rightarrow> real option \<Rightarrow> bool" where
  "gt (Some a) (Some b) = (b < a)"
| "gt a b = False"

text \<open>\<^verbatim>\<open>frame.max(axis=1)\<close>: for each row the largest value among its cells in the float
  columns, NaN for a row with no value.\<close>

fun float_columns :: "table \<Rightarrow> real option list list" where
  "float_columns [] = []"
| "float_columns ((n, NumCol xs) # rest) = xs # float_columns rest"
| "float_columns (nc # rest) = float_columns rest"

definition row_max :: "frame \<Rightarrow> real option list" where
  "row_max f =
     map (\<lambda>r. series_max (map (\<lambda>xs. if r < length xs then xs ! r else None) (float_columns (cols f))))
       [0..<length (index f)]"

definition key_pollutants :: "string list" where
  "key_pollutants = [''CO(GT)'', ''C6H6(GT)'', ''NOx(GT)'', ''NO2(GT)'']"

definition available_pollutants :: "table \<Rightarrow> string list" where
  "available_pollutants df = filter (\<lambda>p. p \<in> set (names df)) key_pollutants"

text \<open>Line 69: \<^verbatim>\<open>100 * (df[pollutant] - min_val) / (max_val - min_val)\<close>, cell by cell.\<close>

definition scale :: "real \<Rightarrow> real \<Rightarrow> real option list \<Rightarrow> real option list" where
  "scale min_val max_val xs = map (map_option (\<lambda>x. 100 * (x - min_val) / (max_val - min_val))) xs"

text \<open>
  The loop of lines 64 to 71 over the available pollutants, with the frame
  \<^verbatim>\<open>normalized\<close> as its state. The arithmetic is on floats: for a column of another dtype
  the model stops with a TypeError without following the dtype's details.
\<close>

fun normalize_all :: "table \<Rightarrow> string list \<Rightarrow> frame \<Rightarrow> error + frame" where
  "normalize_all df [] normalized = Inr normalized"
| "normalize_all df (pollutant # rest) normalized =
     (case map_of df pollutant of
        None \<Rightarrow> Inl (KeyError pollutant)
      | Some (NumCol xs) \<Rightarrow>
          (let max_val = series_max xs;
               min_val = series_min xs
           in if gt max_val min_val
              then normalize_all df rest
                     (setitem_series normalized pollutant (NumCol (scale (the min_val) (the max_val) xs)))
              else normalize_all df rest (setitem_scalar normalized pollutant 0))
      | Some c \<Rightarrow> Inl (TypeError pollutant))"

definition no_pollutants_message :: string where
  "no_pollutants_message =
     ''None of the key pollutants needed for AQI calculation are available in the dataset.''"

definition calculate_aqi :: "table \<Rightarrow> error + frame" where
  "calculate_aqi df =
     (case getitem df ''DateTime'' of
        Inl e \<Rightarrow> Inl e
      | Inr date_time \<Rightarrow>
          (let aqi_data = setitem_series empty_frame ''DateTime'' date_time in
           if available_pollutants df = [] then Inl (ValueError no_pollutants_message)
           else case normalize_all df (available_pollutants df) empty_frame of
                  Inl e \<Rightarrow> Inl e
                | Inr normalized \<Rightarrow> Inr (setitem_series aqi_data ''AQI'' (NumCol (row_max normalized)))))"

text \<open>The AQI column of the result.\<close>

definition aqi_scores :: "frame \<Rightarrow> real option list" where
  "aqi_scores f = (case map_of (cols f) ''AQI'' of Some (NumCol ys) \<Rightarrow> ys | _ \<Rightarrow> [])"

section \<open>analysis.py: detect\_outliers\<close>

text \<open>
  \<^verbatim>\<open>scipy.stats.zscore\<close> with its defaults: the mean and the population standard deviation
  (\<open>ddof = 0\<close>) of the values, and \<open>(x - mean) / std\<close> for each value. When all values are
  equal the standard deviation is \<open>0\<close> and every score is NaN (\<open>0 / 0\<close>).
\<close>

definition zscore :: "real list \<Rightarrow> real option list" where
  "zscore a =
     (let n = real (length a);
          mn = sum_list a / n;
          sd = sqrt (sum_list (map (\<lambda>x. (x - mn)\<^sup>2) a) / n)
      in map (\<lambda>x. if sd = 0 then None else Some ((x - mn) / sd)) a)"

text \<open>\<^verbatim>\<open>z > 3\<close>: false on NaN.\<close>

fun exceeds :: "real option \<Rightarrow> bool" where
  "exceeds None = False"
| "exceeds (Some z) = (3 < z)"

text \<open>
  \<^verbatim>\<open>s.loc[df[column].dropna().index] = values\<close>: the values, computed for the rows that
  hold a value, go back to those rows; the other rows keep the default \<open>d\<close>.
\<close>

fun spread :: "'b \<Rightarrow> real option list \<Rightarrow> 'b list \<Rightarrow> 'b list" where
  "spread d [] vs = []"
| "spread d (None # xs) vs = d # spread d xs vs"
| "spread d (Some x # xs) [] = d # spread d xs []"
| "spread d (Some x # xs) (v # vs) = v # spread d xs vs"

text \<open>\<^verbatim>\<open>np.abs(stats.zscore(df[column].dropna()))\<close>\<close>

definition abs_zscores :: "real option list \<Rightarrow> real option list" where
  "abs_zscores xs = map (map_option abs) (zscore (dropna xs))"

text \<open>Lines 99 to 101: the mask of one column.\<close>

definition z_score_mask :: "real option list \<Rightarrow> bool list" where
  "z_score_mask xs = spread False xs (map exceeds (abs_zscores xs))"

text \<open>Lines 112 to 114: the scores of one column over all rows, NaN where the column has
  no value.\<close>

definition z_scores :: "real option list \<Rightarrow> real option list" where
  "z_scores xs = spread None xs (abs_zscores xs)"

text \<open>The test of lines 97 and 111: the column exists and holds numbers.\<close>

definition checked :: "table \<Rightarrow> string \<Rightarrow> real option list option" where
  "checked df column = (case map_of df column of Some (NumCol xs) \<Rightarrow> Some xs | _ \<Rightarrow> None)"

text \<open>The first loop, with \<^verbatim>\<open>outlier_mask\<close> as its state.\<close>

fun outlier_mask :: "table \<Rightarrow> string list \<Rightarrow> bool list \<Rightarrow> bool list" where
  "outlier_mask df [] msk = msk"
| "outlier_mask df (column # rest) msk =
     (case checked df column of
        None \<Rightarrow> outlier_mask df rest msk
      | Some xs \<Rightarrow> outlier_mask df rest (map2 (\<or>) msk (z_score_mask xs)))"

text \<open>\<^verbatim>\<open>df[outlier_mask].copy()\<close>: the rows where the mask is true, under their labels.\<close>

definition select_rows :: "table \<Rightarrow> bool list \<Rightarrow> frame" where
  "select_rows df msk =
     (let labels = filter (\<lambda>i. msk ! i) [0..<length msk]
      in \<lparr>index = labels, cols = map (\<lambda>nc. (fst nc, reindex labels (snd nc))) df\<rparr>)"

text \<open>The second loop, with \<^verbatim>\<open>outliers_df\<close> as its state.\<close>

fun attach_scores :: "table \<Rightarrow> string list \<Rightarrow> frame \<Rightarrow> frame" where
  "attach_scores df [] outliers_df = outliers_df"
| "attach_scores df (column # rest) outliers_df =
     (case checked df column of
        None \<Rightarrow> attach_scores df rest outliers_df
      | Some xs \<Rightarrow>
          (let z = z_scores xs;
               f1 = setitem_series outliers_df (column @ ''_z_score'') (NumCol z);
               f2 = setitem_series f1 (column @ ''_is_outlier'') (BoolCol (map (\<lambda>v. Some (exceeds v)) z))
           in attach_scores df rest f2))"

text \<open>\<^verbatim>\<open>df.select_dtypes(include=[np.number]).columns\<close>\<close>

definition numeric_columns :: "table \<Rightarrow> string list" where
  "numeric_columns df = map fst (filter (\<lambda>nc. is_numeric (snd nc)) df)"

text \<open>The function reads the caller's table and builds a new frame.\<close>

definition detect_outliers :: "table \<Rightarrow> string list option \<Rightarrow> frame" where
  "detect_outliers df columns =
     (let columns = (case columns of None \<Rightarrow> numeric_columns df | Some cs \<Rightarrow> cs);
          msk = outlier_mask df columns (replicate (nrows df) False);
          outliers_df = select_rows df msk
      in attach_scores df columns outliers_df)"

section \<open>analysis.py: perform\_time\_analysis\<close>

text \<open>The key of a group is a cell of the column that the rows are grouped by.\<close>

datatype key = NumKey real | StrKey string | BoolKey bool

record agg =
  key_name :: string
  value_names :: "string list"
  rows :: "(key \<times> real option list) list"

text \<open>The dictionary that the function returns: an entry is \<open>None\<close> when the dictionary
  has no such key.\<close>

record time_result =
  hourly :: "agg option"
  daily :: "agg option"
  monthly :: "agg option"

definition day_order :: "string list" where
  "day_order = [''Monday'', ''Tuesday'', ''Wednesday'', ''Thursday'', ''Friday'', ''Saturday'', ''Sunday'']"

definition month_order :: "string list" where
  "month_order =
     [''January'', ''February'', ''March'', ''April'', ''May'', ''June'',
      ''July'', ''August'', ''September'', ''October'', ''November'', ''December'']"

fun row_keys :: "column \<Rightarrow> key option list" where
  "row_keys (NumCol xs) = map (map_option NumKey) xs"
| "row_keys (ObjCol xs) = map (map_option StrKey) xs"
| "row_keys (BoolCol xs) = map (map_option BoolKey) xs"
| "row_keys (CatCol cs xs) = map (map_option StrKey) xs"

text \<open>
  The groups of \<^verbatim>\<open>df.groupby(name)\<close>, in the order of the result: the distinct values in
  ascending order (rows with a missing key belong to no group); for a categorical key,
  all its categories in their order.
\<close>

fun group_keys :: "column \<Rightarrow> key list" where
  "group_keys (NumCol xs) = map NumKey (sort (remdups (dropna xs)))"
| "group_keys (ObjCol xs) = map StrKey (sort (remdups (dropna xs)))"
| "group_keys (BoolCol xs) = map BoolKey (sort (remdups (dropna xs)))"
| "group_keys (CatCol cs xs) = map StrKey cs"

text \<open>\<^verbatim>\<open>Series.nunique()\<close>: the number of distinct values, missing cells not counted.\<close>

definition nunique :: "column \<Rightarrow> nat" where
  "nunique c = length (remdups (dropna (row_keys c)))"

text \<open>
  \<^verbatim>\<open>pd.Categorical(series, categories=cats, ordered=True)\<close>: a cell that is not one of the
  categories becomes missing.
\<close>

definition to_category :: "string list \<Rightarrow> string option \<Rightarrow> string option" where
  "to_category cats x = (case x of None \<Rightarrow> None | Some s \<Rightarrow> if s \<in> set cats then Some s else None)"

fun categorical :: "string list \<Rightarrow> column \<Rightarrow> string option list" where
  "categorical cats (ObjCol xs) = map (to_category cats) xs"
| "categorical cats (CatCol cs xs) = map (to_category cats) xs"
| "categorical cats (NumCol xs) = map (\<lambda>x. None) xs"
| "categorical cats (BoolCol xs) = map (\<lambda>x. None) xs"

text \<open>\<^verbatim>\<open>groupby(..., observed=True)\<close> on an ordered categorical: the categories that occur,
  in the order of the categories.\<close>

definition observed :: "string list \<Rightarrow> string option list \<Rightarrow> string list" where
  "observed cats vals = filter (\<lambda>c. Some c \<in> set vals) cats"

text \<open>\<^verbatim>\<open>[numeric_cols].mean()\<close> per group: one row per group, the mean of each column over
  the rows of the group.\<close>

definition group_rows :: "key option list \<Rightarrow> key \<Rightarrow> nat list" where
  "group_rows rk k = filter (\<lambda>i. rk ! i = Some k) [0..<length rk]"

definition aggregate ::
  "table \<Rightarrow> string list \<Rightarrow> key option list \<Rightarrow> key list \<Rightarrow> (key \<times> real option list) list" where
  "aggregate df numeric_cols rk ks =
     map (\<lambda>k. (k, map (\<lambda>n. case map_of df n of
                               Some (NumCol xs) \<Rightarrow> mean (pick (group_rows rk k) xs)
                             | _ \<Rightarrow> None) numeric_cols)) ks"

text \<open>
  Lines 146 to 156. The assignment \<^verbatim>\<open>df['Day_cat'] = ...\<close> writes into the caller's table:
  the step returns the table as it is afterwards. \<^verbatim>\<open>numeric_cols\<close> was computed before;
  should it name a float column \<open>Day_cat\<close>, that column is categorical by now and pandas 2
  raises a TypeError on its mean.
\<close>

definition daily_analysis :: "table \<Rightarrow> string list \<Rightarrow> (error + agg option) \<times> table" where
  "daily_analysis df numeric_cols =
     (case map_of df ''Day'' of
        None \<Rightarrow> (Inr None, df)
      | Some day \<Rightarrow>
          (let day_cat = categorical day_order day;
               df1 = set_column df ''Day_cat'' (CatCol day_order day_cat)
           in if ''Day_cat'' \<in> set numeric_cols then (Inl (TypeError ''Day_cat''), df1)
              else (Inr (Some \<lparr>key_name = ''Day'', value_names = numeric_cols,
                               rows = aggregate df1 numeric_cols (map (map_option StrKey) day_cat)
                                        (map StrKey (observed day_order day_cat))\<rparr>), df1)))"

text \<open>Lines 158 to 176, in the same way.\<close>

definition monthly_analysis :: "table \<Rightarrow> string list \<Rightarrow> (error + agg option) \<times> table" where
  "monthly_analysis df numeric_cols =
     (case map_of df ''Month'' of
        None \<Rightarrow> (Inr None, df)
      | Some month \<Rightarrow>
          (let unique_months = nunique month in
           if 1 < unique_months
           then (let month_cat = categorical month_order month;
                     df1 = set_column df ''Month_cat'' (CatCol month_order month_cat)
                 in if ''Month_cat'' \<in> set numeric_cols then (Inl (TypeError ''Month_cat''), df1)
                    else (Inr (Some \<lparr>key_name = ''Month'', value_names = numeric_cols,
                                     rows = aggregate df1 numeric_cols (map (map_option StrKey) month_cat)
                                              (map StrKey (observed month_order month_cat))\<rparr>), df1))
           else (Inr None, df)))"

definition no_datetime_message :: string where
  "no_datetime_message = ''DataFrame must contain 'DateTime' column for time analysis''"

text \<open>
  The function, as a step on the caller's table: it returns the result (or the exception)
  and the table as the call leaves it.
\<close>

definition perform_time_analysis :: "table \<Rightarrow> (error + time_result) \<times> table" where
  "perform_time_analysis df =
     (if ''DateTime'' \<notin> set (names df) then (Inl (ValueError no_datetime_message), df)
      else
        (let numeric_cols = filter (\<lambda>col. col \<notin> {''Hour'', ''Day'', ''Month''}) (numeric_columns df) in
         case map_of df ''Hour'' of
           None \<Rightarrow> (Inl (KeyError ''Hour''), df)
         | Some hour \<Rightarrow>
             (let hourly_df = \<lparr>key_name = ''Hour'', value_names = numeric_cols,
                               rows = aggregate df numeric_cols (row_keys hour) (group_keys hour)\<rparr>
              in case daily_analysis df numeric_cols of
                   (Inl e, df1) \<Rightarrow> (Inl e, df1)
                 | (Inr daily_df, df1) \<Rightarrow>
                     (case monthly_analysis df1 numeric_cols of
                        (Inl e, df2) \<Rightarrow> (Inl e, df2)
                      | (Inr monthly_df, df2) \<Rightarrow>
                          (Inr \<lparr>hourly = Some hourly_df, daily = daily_df, monthly = monthly_df\<rparr>, df2)))))"

section \<open>Predicates used in the statements\<close>

text \<open>Every candidate pollutant column of the table holds floats.\<close>

definition float_candidates :: "table \<Rightarrow> bool" where
  "float_candidates df =
     (\<forall>p \<in> set (available_pollutants df). case map_of df p of Some c \<Rightarrow> is_numeric c | None \<Rightarrow> False)"

text \<open>The labels of the rows of an outlier table that its column \<^verbatim>\<open><column>_is_outlier\<close>
  flags.\<close>

definition flagged :: "frame \<Rightarrow> string \<Rightarrow> nat list" where
  "flagged f column =
     (case map_of (cols f) (column @ ''_is_outlier'') of
        Some (BoolCol bs) \<Rightarrow> map fst (filter (\<lambda>lb. snd lb = Some True) (zip (index f) bs))
      | _ \<Rightarrow> [])"

text \<open>A boolean column with no true cell.\<close>

definition unflagged :: "column option \<Rightarrow> bool" where
  "unflagged c = (case c of Some (BoolCol bs) \<Rightarrow> Some True \<notin> set bs | _ \<Rightarrow> False)"

text \<open>A score that is missing or lies between \<open>0\<close> and \<open>100\<close>; a float column and a
  frame of such cells.\<close>

definition in_range :: "real option \<Rightarrow> bool" where
  "in_range x = (case x of None \<Rightarrow> True | Some v \<Rightarrow> 0 \<le> v \<and> v \<le> 100)"

definition bounded_col :: "column \<Rightarrow> bool" where
  "bounded_col c = (case c of NumCol xs \<Rightarrow> (\<forall>x \<in> set xs. in_range x) | _ \<Rightarrow> False)"

definition bounded_frame :: "frame \<Rightarrow> bool" where
  "bounded_frame f = (\<forall>nc \<in> set (cols f). bounded_col (snd nc))"

section \<open>Properties of handle\_missing\_values\<close>

lemma interp_from_keeps_values:
  "None \<notin> set xs \<Longrightarrow> interp_from prev i xs = xs"
  by (induction prev i xs rule: interp_from.induct) auto

lemma next_valid_some:
  "\<exists>x \<in> set xs. x \<noteq> None \<Longrightarrow> next_valid i xs \<noteq> None"
  by (induction i xs rule: next_valid.induct) auto

lemma interp_from_fills:
  "prev \<noteq> None \<or> (\<exists>x \<in> set xs. x \<noteq> None) \<Longrightarrow> None \<notin> set (interp_from prev i xs)"
proof (induction prev i xs rule: interp_from.induct)
  case (1 prev i)
  then show ?case by simp
next
  case (2 prev i v xs)
  then show ?case by simp
next
  case (3 prev i xs)
  from "3.prems" have pre: "prev \<noteq> None \<or> (\<exists>x \<in> set xs. x \<noteq> None)" by auto
  then have rest: "None \<notin> set (interp_from prev (Suc i) xs)" by (rule "3.IH")
  have "prev \<noteq> None \<or> next_valid (Suc i) xs \<noteq> None"
    using pre next_valid_some by blast
  then show ?case using rest by (auto split: option.splits)
qed

lemma interp_from_all_absent:
  "\<forall>x \<in> set xs. x = None \<Longrightarrow> interp_from None i xs = xs"
proof (induction xs arbitrary: i)
  case Nil
  then show ?case by simp
next
  case (Cons x xs)
  then have x: "x = None" and rest: "\<forall>y \<in> set xs. y = None" by auto
  have "next_valid (Suc i) xs = None"
    using rest by (induction xs arbitrary: i) auto
  then show ?case using x Cons.IH [OF rest] by simp
qed

lemma ffill_from_keeps_values: "None \<notin> set xs \<Longrightarrow> ffill_from prev xs = xs"
  by (induction prev xs rule: ffill_from.induct) auto

lemma ffill_from_all_absent: "\<forall>x \<in> set xs. x = None \<Longrightarrow> ffill_from None xs = xs"
  by (induction xs) auto

lemma bfill_keeps_values: "None \<notin> set xs \<Longrightarrow> bfill xs = xs"
  by (induction xs rule: bfill.induct) auto

lemma bfill_all_absent: "\<forall>x \<in> set xs. x = None \<Longrightarrow> bfill xs = xs"
  by (induction xs rule: bfill.induct) (auto split: list.splits)

lemma fillna_keeps_values: "None \<notin> set xs \<Longrightarrow> fillna v xs = xs"
  by (induction xs) (auto simp: fillna_def split: option.splits)

lemma impute_keeps_values: "None \<notin> set xs \<Longrightarrow> impute xs = xs"
  by (simp add: impute_def interpolate_def ffill_def interp_from_keeps_values
      ffill_from_keeps_values bfill_keeps_values fillna_keeps_values)

lemma impute_fills:
  assumes "\<exists>x \<in> set xs. x \<noteq> None"
  shows "None \<notin> set (impute xs)"
proof -
  have a: "None \<notin> set (interpolate xs)"
    unfolding interpolate_def using assms interp_from_fills by blast
  then show ?thesis
    by (simp add: impute_def ffill_def ffill_from_keeps_values bfill_keeps_values
        fillna_keeps_values)
qed

lemma impute_all_absent:
  assumes "\<forall>x \<in> set xs. x = None"
  shows "impute xs = xs"
proof -
  have "dropna xs = []"
    using assms by (induction xs) (auto simp: dropna_def)
  then have m: "mean xs = None" by (simp add: mean_def)
  have f: "fillna None xs = xs"
    by (induction xs) (auto simp: fillna_def split: option.splits)
  show ?thesis
    using assms m f
    by (simp add: impute_def interpolate_def ffill_def interp_from_all_absent
        ffill_from_all_absent bfill_all_absent)
qed

lemma impute_idem: "impute (impute xs) = impute xs"
proof (cases "\<exists>x \<in> set xs. x \<noteq> None")
  case True
  then show ?thesis using impute_fills impute_keeps_values by blast
next
  case False
  then have "\<forall>x \<in> set xs. x = None" by blast
  then show ?thesis by (simp add: impute_all_absent)
qed

lemma hmv_Inr_iff:
  "handle_missing_values (nc # rest) = Inr df' \<longleftrightarrow>
     (\<exists>nc' rest'. handle_missing_col nc = Inr nc' \<and> handle_missing_values rest = Inr rest'
        \<and> df' = nc' # rest')"
  by (auto split: sum.splits)

lemma handle_missing_col_name:
  "handle_missing_col nc = Inr nc' \<Longrightarrow> fst nc' = fst nc"
  by (auto simp: handle_missing_col_def split: if_splits column.splits)

lemma handle_missing_col_fills:
  assumes "handle_missing_col nc = Inr nc'"
    and "fst nc \<notin> {''Date'', ''Time''}" and "has_value (snd nc)"
  shows "\<not> has_absent (snd nc')"
proof (cases "snd nc")
  case (NumCol xs)
  with assms have "nc' = (fst nc, NumCol (impute xs))" and "\<exists>x \<in> set xs. x \<noteq> None"
    by (auto simp: handle_missing_col_def)
  then show ?thesis using impute_fills by simp
qed (use assms in \<open>auto simp: handle_missing_col_def\<close>)

lemma handle_missing_col_numeric:
  "fst nc \<in> {''Date'', ''Time''} \<or> is_numeric (snd nc) \<Longrightarrow> \<exists>nc'. handle_missing_col nc = Inr nc'"
  by (cases "snd nc") (auto simp: handle_missing_col_def)

lemma handle_missing_col_idem:
  assumes "handle_missing_col nc = Inr nc'"
  shows "handle_missing_col nc' = Inr nc'"
proof (cases "fst nc \<in> {''Date'', ''Time''}")
  case True
  with assms show ?thesis by (auto simp: handle_missing_col_def)
next
  case False
  with assms obtain xs where "snd nc = NumCol xs" "nc' = (fst nc, NumCol (impute xs))"
    by (cases "snd nc") (auto simp: handle_missing_col_def)
  then show ?thesis using False by (simp add: handle_missing_col_def impute_idem)
qed

lemma hmv_total_on_numeric:
  "numeric_fields df \<Longrightarrow> \<exists>df'. handle_missing_values df = Inr df'"
proof (induction df)
  case Nil
  then show ?case by simp
next
  case (Cons nc rest)
  then have "fst nc \<in> {''Date'', ''Time''} \<or> is_numeric (snd nc)" and "numeric_fields rest"
    by (auto simp: numeric_fields_def)
  then show ?case
    using Cons.IH handle_missing_col_numeric [of nc] by (auto simp: hmv_Inr_iff)
qed

text \<open>
  C1. After \<^verbatim>\<open>handle_missing_values\<close> has run, the table has the same columns under the
  same names, and every column other than Date and Time that had at least one value
  has no missing cell left. (A column with no value at all stays as it is,
  \<open>impute_all_absent\<close>; on the tables of the data model the function does return,
  \<open>hmv_total_on_numeric\<close>.)
\<close>

theorem handle_missing_values_populates:
  "handle_missing_values df = Inr df' \<Longrightarrow>
     length df' = length df \<and>
     (\<forall>i < length df.
        fst (df' ! i) = fst (df ! i) \<and>
        (fst (df ! i) \<notin> {''Date'', ''Time''} \<and> has_value (snd (df ! i))
           \<longrightarrow> \<not> has_absent (snd (df' ! i))))"
proof (induction df arbitrary: df')
  case Nil
  then show ?case by simp
next
  case (Cons nc rest)
  then obtain nc' rest' where
    h: "handle_missing_col nc = Inr nc'" "handle_missing_values rest = Inr rest'"
       "df' = nc' # rest'"
    using hmv_Inr_iff [THEN iffD1] by blast
  have ih: "length rest' = length rest \<and>
     (\<forall>i < length rest.
        fst (rest' ! i) = fst (rest ! i) \<and>
        (fst (rest ! i) \<notin> {''Date'', ''Time''} \<and> has_value (snd (rest ! i))
           \<longrightarrow> \<not> has_absent (snd (rest' ! i))))"
    using Cons.IH h(2) by blast
  have hd: "fst nc' = fst nc \<and>
     (fst nc \<notin> {''Date'', ''Time''} \<and> has_value (snd nc) \<longrightarrow> \<not> has_absent (snd nc'))"
    using h(1) handle_missing_col_name handle_missing_col_fills by blast
  show ?case
  proof (intro conjI allI impI)
    show "length df' = length (nc # rest)" using h(3) ih by simp
  next
    fix i assume "i < length (nc # rest)"
    then show "fst (df' ! i) = fst ((nc # rest) ! i)"
      using h(3) ih hd by (cases i) auto
  next
    fix i
    assume "i < length (nc # rest)"
      and "fst ((nc # rest) ! i) \<notin> {''Date'', ''Time''} \<and> has_value (snd ((nc # rest) ! i))"
    then show "\<not> has_absent (snd (df' ! i))"
      using h(3) ih hd by (cases i) auto
  qed
qed

theorem handle_missing_values_populates_witness:
  "handle_missing_values
      [(''Date'', ObjCol [Some ''01/01/2020'', Some ''01/01/2020'', Some ''01/01/2020'']),
       (''CO'', NumCol [Some 2, None, Some 4])]
    = Inr [(''Date'', ObjCol [Some ''01/01/2020'', Some ''01/01/2020'', Some ''01/01/2020'']),
           (''CO'', NumCol [Some 2, Some 3, Some 4])]
   \<and> \<not> has_absent (NumCol [Some 2, Some 3, Some 4])"
proof -
  have run: "handle_missing_values
      [(''Date'', ObjCol [Some ''01/01/2020'', Some ''01/01/2020'', Some ''01/01/2020'']),
       (''CO'', NumCol [Some 2, None, Some 4])]
    = Inr [(''Date'', ObjCol [Some ''01/01/2020'', Some ''01/01/2020'', Some ''01/01/2020'']),
           (''CO'', NumCol [Some 2, Some 3, Some 4])]"
    by (simp add: handle_missing_col_def impute_def interpolate_def ffill_def mean_def
        dropna_def fillna_def)
  from handle_missing_values_populates [OF run] show ?thesis
    using run by simp
qed

lemma handle_missing_col_same:
  assumes "handle_missing_col nc = Inr nc'"
    and "fst nc \<notin> {''Date'', ''Time''} \<longrightarrow> \<not> has_absent (snd nc)"
  shows "nc' = nc"
proof (cases "fst nc \<in> {''Date'', ''Time''}")
  case True
  with assms(1) show ?thesis by (auto simp: handle_missing_col_def)
next
  case False
  with assms(1) obtain xs where xs: "snd nc = NumCol xs" "nc' = (fst nc, NumCol (impute xs))"
    by (cases "snd nc") (auto simp: handle_missing_col_def)
  with assms(2) False have "None \<notin> set xs" by simp
  then have "nc' = (fst nc, snd nc)" using xs by (simp add: impute_keeps_values)
  then show ?thesis by simp
qed

lemma hmv_same:
  "handle_missing_values df = Inr df' \<Longrightarrow> fully_populated df \<Longrightarrow> df' = df"
proof (induction df arbitrary: df')
  case Nil
  then show ?case by simp
next
  case (Cons nc rest)
  then obtain nc' rest' where
    h: "handle_missing_col nc = Inr nc'" "handle_missing_values rest = Inr rest'"
       "df' = nc' # rest'"
    using hmv_Inr_iff [THEN iffD1] by blast
  have "fst nc \<notin> {''Date'', ''Time''} \<longrightarrow> \<not> has_absent (snd nc)" and "fully_populated rest"
    using Cons.prems(2) by (auto simp: fully_populated_def)
  then have "nc' = nc" and "rest' = rest"
    using h handle_missing_col_same Cons.IH by blast+
  then show ?case using h(3) by simp
qed

lemma hmv_returns_populated:
  "numeric_fields df \<Longrightarrow> fully_populated df \<Longrightarrow> handle_missing_values df = Inr df"
  using hmv_total_on_numeric hmv_same by blast

lemma hmv_idem:
  "handle_missing_values df = Inr df' \<Longrightarrow> handle_missing_values df' = Inr df'"
proof (induction df arbitrary: df')
  case Nil
  then show ?case by auto
next
  case (Cons nc rest)
  then obtain nc' rest' where
    h: "handle_missing_col nc = Inr nc'" "handle_missing_values rest = Inr rest'"
       "df' = nc' # rest'"
    using hmv_Inr_iff [THEN iffD1] by blast
  then have "handle_missing_col nc' = Inr nc'" "handle_missing_values rest' = Inr rest'"
    using handle_missing_col_idem Cons.IH by blast+
  then show ?case using h(3) by simp
qed

text \<open>
  C6, as the claim states it, fails: a table whose only column is the text column Name
  has no missing cell, and \<^verbatim>\<open>handle_missing_values\<close> does not return it: line 61 takes the
  mean of the column whether or not a cell is missing, and text has no mean.
\<close>

theorem handle_missing_values_text_column_counterexample:
  "fully_populated [(''Name'', ObjCol [Some ''a'', Some ''b''])]
   \<and> handle_missing_values [(''Name'', ObjCol [Some ''a'', Some ''b''])] = Inl (TypeError ''Name'')"
  by (simp add: fully_populated_def handle_missing_col_def)

text \<open>
  C6, amended. On a table whose fields other than Date and Time are columns of numbers
  with no missing cell, \<^verbatim>\<open>handle_missing_values\<close> returns the table it was given. Whenever
  it returns a table for an input with no missing cell outside Date and Time, that table
  is the input; and whatever table a first run returns, a second run returns it again.
\<close>

theorem handle_missing_values_idempotent:
  "(fully_populated df \<and> handle_missing_values df = Inr df' \<longrightarrow> df' = df) \<and>
   (fully_populated df \<and> numeric_fields df \<longrightarrow> handle_missing_values df = Inr df) \<and>
   (handle_missing_values df = Inr df' \<longrightarrow> handle_missing_values df' = Inr df')"
  using hmv_same hmv_returns_populated hmv_idem by blast

theorem handle_missing_values_idempotent_witness:
  "fully_populated [(''Time'', ObjCol [Some ''10.00.00'', Some ''11.00.00'']), (''CO'', NumCol [Some 2, Some 3])]
   \<and> numeric_fields [(''Time'', ObjCol [Some ''10.00.00'', Some ''11.00.00'']), (''CO'', NumCol [Some 2, Some 3])]
   \<and> handle_missing_values [(''Time'', ObjCol [Some ''10.00.00'', Some ''11.00.00'']), (''CO'', NumCol [Some 2, Some 3])]
       = Inr [(''Time'', ObjCol [Some ''10.00.00'', Some ''11.00.00'']), (''CO'', NumCol [Some 2, Some 3])]"
proof -
  have h: "fully_populated [(''Time'', ObjCol [Some ''10.00.00'', Some ''11.00.00'']), (''CO'', NumCol [Some 2, Some 3])]
     \<and> numeric_fields [(''Time'', ObjCol [Some ''10.00.00'', Some ''11.00.00'']), (''CO'', NumCol [Some 2, Some 3])]"
    by (simp add: numeric_fields_def fully_populated_def)
  with handle_missing_values_idempotent
    [of "[(''Time'', ObjCol [Some ''10.00.00'', Some ''11.00.00'']), (''CO'', NumCol [Some 2, Some 3])]"]
  show ?thesis by blast
qed

section \<open>Properties of load\_and\_clean\_data\<close>

lemma replace_sentinel_clean:
  "is_numeric (replace_sentinel c) \<Longrightarrow> \<not> holds_sentinel (replace_sentinel c)"
  by (cases c) auto

text \<open>
  C5, as the claim states it, fails: in a column that \<^verbatim>\<open>read_csv\<close> delivered as text
  (one field of it is not a number) the field written \<open>-200\<close> is text, line 28 compares
  with the number \<open>-200\<close>, and the field is still there in the returned table.
\<close>

theorem load_and_clean_data_text_column_counterexample:
  "load_and_clean_data (Inr [(''T'', ObjCol [Some ''abc'', Some ''-200''])])
     = Inr [(''T'', ObjCol [Some ''abc'', Some ''-200''])]
   \<and> holds_sentinel (ObjCol [Some ''abc'', Some ''-200''])"
  by (simp add: load_and_clean_data_def replace_all_def drop_unnamed_def strip_names_def
      rstrip_def unnamed_def)

text \<open>
  C5, amended. In the table that \<^verbatim>\<open>load_and_clean_data\<close> returns no column of numbers other
  than Date and Time holds \<open>-200\<close>. The columns are those that survive the renaming and
  the dropping, under the same names and in the same order. In a column of numbers other
  than Date and Time every cell that was \<open>-200\<close> is the missing value, which is neither
  the number \<open>0\<close> nor the empty text, and a cell is missing only if it was missing or
  \<open>-200\<close> before. A column of text is returned as it is.
\<close>

theorem load_and_clean_data_no_sentinel:
  "load_and_clean_data (Inr raw) = Inr df \<Longrightarrow>
     (\<forall>nc \<in> set df. fst nc \<notin> {''Date'', ''Time''} \<and> is_numeric (snd nc)
         \<longrightarrow> \<not> holds_sentinel (snd nc)) \<and>
     length df = length (drop_unnamed (strip_names raw)) \<and>
     (\<forall>i < length df.
        fst (df ! i) = fst (drop_unnamed (strip_names raw) ! i) \<and>
        (\<forall>ss. snd (drop_unnamed (strip_names raw) ! i) = ObjCol ss \<longrightarrow> snd (df ! i) = ObjCol ss) \<and>
        (fst (df ! i) \<notin> {''Date'', ''Time''} \<longrightarrow>
           (\<forall>xs. snd (drop_unnamed (strip_names raw) ! i) = NumCol xs \<longrightarrow>
              (\<exists>ys. snd (df ! i) = NumCol ys \<and> length ys = length xs \<and>
                 (\<forall>k < length xs.
                    (xs ! k = Some (- 200) \<longrightarrow> ys ! k = None) \<and>
                    (ys ! k = None \<longrightarrow> xs ! k = None \<or> xs ! k = Some (- 200))))))) \<and>
     (None :: real option) \<noteq> Some 0 \<and> (None :: string option) \<noteq> Some ''''"
proof -
  assume "load_and_clean_data (Inr raw) = Inr df"
  then have df: "df = replace_all (drop_unnamed (strip_names raw))"
    by (simp add: load_and_clean_data_def)
  define mid where "mid = drop_unnamed (strip_names raw)"
  have 1: "\<forall>nc \<in> set df. fst nc \<notin> {''Date'', ''Time''} \<and> is_numeric (snd nc)
      \<longrightarrow> \<not> holds_sentinel (snd nc)"
    unfolding df replace_all_def using replace_sentinel_clean by (auto split: if_splits)
  have 2: "length df = length mid"
    by (simp add: df mid_def replace_all_def)
  have 3: "fst (df ! i) = fst (mid ! i) \<and>
        (\<forall>ss. snd (mid ! i) = ObjCol ss \<longrightarrow> snd (df ! i) = ObjCol ss) \<and>
        (fst (df ! i) \<notin> {''Date'', ''Time''} \<longrightarrow>
           (\<forall>xs. snd (mid ! i) = NumCol xs \<longrightarrow>
              (\<exists>ys. snd (df ! i) = NumCol ys \<and> length ys = length xs \<and>
                 (\<forall>k < length xs.
                    (xs ! k = Some (- 200) \<longrightarrow> ys ! k = None) \<and>
                    (ys ! k = None \<longrightarrow> xs ! k = None \<or> xs ! k = Some (- 200))))))"
    if "i < length df" for i
  proof -
    from that 2 have i: "i < length mid" by simp
    then have "df ! i = (if fst (mid ! i) \<notin> {''Date'', ''Time''}
        then (fst (mid ! i), replace_sentinel (snd (mid ! i))) else mid ! i)"
      by (simp add: df mid_def [symmetric] replace_all_def)
    then show ?thesis by auto
  qed
  show ?thesis using 1 2 3 unfolding mid_def by simp
qed

theorem load_and_clean_data_no_sentinel_witness:
  "load_and_clean_data (Inr
      [(''Date'', ObjCol [Some ''01/01/2020'', Some ''01/01/2020'']),
       (''CO(GT);'', NumCol [Some 2, Some (- 200)]),
       (''Unnamed: 15'', NumCol [None, None])])
    = Inr [(''Date'', ObjCol [Some ''01/01/2020'', Some ''01/01/2020'']),
           (''CO(GT)'', NumCol [Some 2, None])]
   \<and> \<not> holds_sentinel (NumCol [Some 2, None])"
proof -
  have run: "load_and_clean_data (Inr
      [(''Date'', ObjCol [Some ''01/01/2020'', Some ''01/01/2020'']),
       (''CO(GT);'', NumCol [Some 2, Some (- 200)]),
       (''Unnamed: 15'', NumCol [None, None])])
    = Inr [(''Date'', ObjCol [Some ''01/01/2020'', Some ''01/01/2020'']),
           (''CO(GT)'', NumCol [Some 2, None])]"
    by (simp add: load_and_clean_data_def replace_all_def drop_unnamed_def strip_names_def
        rstrip_def unnamed_def)
  from load_and_clean_data_no_sentinel [OF run] show ?thesis
    using run by simp
qed

section \<open>Properties of the frame operations\<close>

lemma map_of_replaced:
  "map_of (map (\<lambda>nc. if fst nc = name then (name, c) else nc) t) name'
     = (if name' = name then (if name \<in> set (map fst t) then Some c else None) else map_of t name')"
  by (induction t) force+

lemma map_of_set_column:
  "map_of (set_column t name c) name' = (if name' = name then Some c else map_of t name')"
proof (cases "name \<in> set (map fst t)")
  case True
  then show ?thesis by (simp add: set_column_def map_of_replaced)
next
  case False
  then have "map_of t name = None" by (simp add: map_of_eq_None_iff)
  then show ?thesis using False by (auto simp: set_column_def map_add_def split: option.splits)
qed

lemma map_of_reindexed:
  "map_of (map (\<lambda>nc. (fst nc, g (snd nc))) t) name = map_option g (map_of t name)"
  by (induction t) auto

section \<open>Properties of calculate\_aqi\<close>

lemma names_iff: "name \<in> set (names df) \<longleftrightarrow> map_of df name \<noteq> None"
  by (simp add: names_def map_of_eq_None_iff)

lemma getitem_present: "name \<in> set (names df) \<Longrightarrow> \<exists>c. getitem df name = Inr c"
  by (cases "map_of df name") (auto simp: getitem_def names_iff)

lemma getitem_missing: "name \<notin> set (names df) \<Longrightarrow> getitem df name = Inl (KeyError name)"
  by (simp add: getitem_def names_iff)

lemma normalize_all_no_value_error: "normalize_all df ps f \<noteq> Inl (ValueError msg)"
  by (induction df ps f rule: normalize_all.induct)
     (auto simp: Let_def split: option.splits column.splits)

lemma normalize_all_total:
  "\<forall>p \<in> set ps. (case map_of df p of Some c \<Rightarrow> is_numeric c | None \<Rightarrow> False)
     \<Longrightarrow> \<exists>f'. normalize_all df ps f = Inr f'"
  by (induction df ps f rule: normalize_all.induct)
     (auto simp: Let_def split: option.splits column.splits)

lemma available_empty_iff:
  "available_pollutants df = [] \<longleftrightarrow> (\<forall>p \<in> set key_pollutants. p \<notin> set (names df))"
  by (auto simp: available_pollutants_def filter_empty_conv)

lemma setitem_series_twice_names:
  "map fst (cols (setitem_series (setitem_series empty_frame a s) b t)) = (if a = b then [a] else [a, b])"
  by (simp add: setitem_series_def empty_frame_def set_column_def Let_def)

text \<open>
  C4, as the claim states it, fails: a table with a candidate column and no DateTime column
  does not get a Composite Index Table, it ends at line 46 with a KeyError.
\<close>

theorem calculate_aqi_no_datetime_counterexample:
  "calculate_aqi [(''CO(GT)'', NumCol [Some 1, Some 2])] = Inl (KeyError ''DateTime'')"
  by (simp add: calculate_aqi_def getitem_def)

text \<open>
  C4, amended. Without a DateTime column \<^verbatim>\<open>calculate_aqi\<close> fails with a KeyError before
  the candidates are looked at. With a DateTime column it fails with the ValueError of
  line 59 if and only if none of the four candidate fields is a column of the table; and
  when at least one is a column and the candidate columns hold floats, it returns a table
  with the columns DateTime and AQI.
\<close>

theorem calculate_aqi_errors:
  "(''DateTime'' \<notin> set (names df) \<longrightarrow> calculate_aqi df = Inl (KeyError ''DateTime'')) \<and>
   (''DateTime'' \<in> set (names df) \<longrightarrow>
     ((\<exists>msg. calculate_aqi df = Inl (ValueError msg)) \<longleftrightarrow>
        (\<forall>p \<in> set key_pollutants. p \<notin> set (names df))) \<and>
     ((\<exists>p \<in> set key_pollutants. p \<in> set (names df)) \<and> float_candidates df \<longrightarrow>
        (\<exists>out. calculate_aqi df = Inr out \<and> map fst (cols out) = [''DateTime'', ''AQI''])))"
proof (intro conjI impI)
  assume "''DateTime'' \<notin> set (names df)"
  then show "calculate_aqi df = Inl (KeyError ''DateTime'')"
    by (simp add: calculate_aqi_def getitem_missing)
next
  assume "''DateTime'' \<in> set (names df)"
  then obtain dt where dt: "getitem df ''DateTime'' = Inr dt"
    using getitem_present by blast
  show "(\<exists>msg. calculate_aqi df = Inl (ValueError msg)) \<longleftrightarrow>
        (\<forall>p \<in> set key_pollutants. p \<notin> set (names df))"
  proof (cases "available_pollutants df = []")
    case True
    then have "calculate_aqi df = Inl (ValueError no_pollutants_message)"
      by (simp add: calculate_aqi_def dt)
    then show ?thesis using True available_empty_iff by auto
  next
    case False
    have "calculate_aqi df \<noteq> Inl (ValueError msg)" for msg
      using False normalize_all_no_value_error
      by (auto simp: calculate_aqi_def dt Let_def split: sum.splits)
    then show ?thesis using False available_empty_iff by blast
  qed
next
  assume "''DateTime'' \<in> set (names df)"
    and some: "(\<exists>p \<in> set key_pollutants. p \<in> set (names df)) \<and> float_candidates df"
  then obtain dt where dt: "getitem df ''DateTime'' = Inr dt"
    using getitem_present by blast
  from some have ne: "available_pollutants df \<noteq> []"
    using available_empty_iff by blast
  from some obtain f where "normalize_all df (available_pollutants df) empty_frame = Inr f"
    using normalize_all_total unfolding float_candidates_def by blast
  then show "\<exists>out. calculate_aqi df = Inr out \<and> map fst (cols out) = [''DateTime'', ''AQI'']"
    using ne by (simp add: calculate_aqi_def dt Let_def setitem_series_twice_names)
qed

theorem calculate_aqi_errors_witness:
  "''DateTime'' \<in> set (names [(''DateTime'', ObjCol [Some ''2004-03-10 18:00:00'', Some ''2004-03-10 19:00:00'']),
                              (''CO(GT)'', NumCol [Some 1, Some 2])])
   \<and> float_candidates [(''DateTime'', ObjCol [Some ''2004-03-10 18:00:00'', Some ''2004-03-10 19:00:00'']),
                        (''CO(GT)'', NumCol [Some 1, Some 2])]
   \<and> calculate_aqi [(''DateTime'', ObjCol [Some ''2004-03-10 18:00:00'', Some ''2004-03-10 19:00:00'']),
                     (''CO(GT)'', NumCol [Some 1, Some 2])] \<noteq> Inl (ValueError no_pollutants_message)
   \<and> (\<exists>out. calculate_aqi [(''DateTime'', ObjCol [Some ''2004-03-10 18:00:00'', Some ''2004-03-10 19:00:00'']),
                            (''CO(GT)'', NumCol [Some 1, Some 2])] = Inr out
            \<and> map fst (cols out) = [''DateTime'', ''AQI''])"
proof -
  let ?T = "[(''DateTime'', ObjCol [Some ''2004-03-10 18:00:00'', Some ''2004-03-10 19:00:00'']),
             (''CO(GT)'', NumCol [Some 1, Some 2])]"
  have d: "''DateTime'' \<in> set (names ?T)" by (simp add: names_def)
  have p: "\<exists>p \<in> set key_pollutants. p \<in> set (names ?T)"
    by (simp add: names_def key_pollutants_def)
  have c: "float_candidates ?T"
    by (simp add: float_candidates_def available_pollutants_def key_pollutants_def names_def)
  from calculate_aqi_errors [of ?T] d p c show ?thesis by blast
qed

subsection \<open>The range of the scores\<close>

lemma set_dropna: "set (dropna xs) = {v. Some v \<in> set xs}"
  by (induction xs) (auto simp: dropna_def)

lemma series_max_eq:
  "series_max xs = (if dropna xs = [] then None else Some (Max (set (dropna xs))))"
proof (cases "dropna xs")
  case Nil
  then show ?thesis by (simp add: series_max_def)
next
  case (Cons v vs)
  have "fold max vs v = Max (set (v # vs))" by (rule Max.set_eq_fold [symmetric])
  then show ?thesis using Cons by (simp add: series_max_def)
qed

lemma series_min_eq:
  "series_min xs = (if dropna xs = [] then None else Some (Min (set (dropna xs))))"
proof (cases "dropna xs")
  case Nil
  then show ?thesis by (simp add: series_min_def)
next
  case (Cons v vs)
  have "fold min vs v = Min (set (v # vs))" by (rule Min.set_eq_fold [symmetric])
  then show ?thesis using Cons by (simp add: series_min_def)
qed

lemma series_max_ge:
  assumes "series_max xs = Some mx" and "Some x \<in> set xs"
  shows "x \<le> mx"
proof -
  have "x \<in> set (dropna xs)" using assms(2) by (simp add: set_dropna)
  moreover have "mx = Max (set (dropna xs))"
    using assms(1) by (auto simp: series_max_eq split: if_splits)
  ultimately show ?thesis using Max_ge [of "set (dropna xs)" x] by simp
qed

lemma series_min_le:
  assumes "series_min xs = Some mn" and "Some x \<in> set xs"
  shows "mn \<le> x"
proof -
  have "x \<in> set (dropna xs)" using assms(2) by (simp add: set_dropna)
  moreover have "mn = Min (set (dropna xs))"
    using assms(1) by (auto simp: series_min_eq split: if_splits)
  ultimately show ?thesis using Min_le [of "set (dropna xs)" x] by simp
qed

lemma series_max_in:
  assumes "series_max xs = Some m"
  shows "Some m \<in> set xs"
proof -
  from assms have ne: "set (dropna xs) \<noteq> {}" and m: "m = Max (set (dropna xs))"
    by (auto simp: series_max_eq split: if_splits)
  then have "m \<in> set (dropna xs)" using Max_in [of "set (dropna xs)"] by simp
  then show ?thesis by (simp add: set_dropna)
qed

lemma scale_in_range:
  fixes x mn mx :: real
  assumes "mn < mx" "mn \<le> x" "x \<le> mx"
  shows "0 \<le> 100 * (x - mn) / (mx - mn) \<and> 100 * (x - mn) / (mx - mn) \<le> 100"
proof -
  have d: "0 < mx - mn" using assms by simp
  have "x - mn \<le> mx - mn" using assms by simp
  then have "100 * (x - mn) \<le> 100 * (mx - mn)" by simp
  then have "100 * (x - mn) / (mx - mn) \<le> 100" using d by (simp add: pos_divide_le_eq)
  moreover have "0 \<le> 100 * (x - mn) / (mx - mn)" using assms d by simp
  ultimately show ?thesis by simp
qed

lemma scale_bounded:
  assumes "series_max xs = Some mx" "series_min xs = Some mn" "mn < mx"
  shows "bounded_col (NumCol (scale mn mx xs))"
proof -
  have "in_range (map_option (\<lambda>x. 100 * (x - mn) / (mx - mn)) x)" if "x \<in> set xs" for x
  proof (cases x)
    case None
    then show ?thesis by (simp add: in_range_def)
  next
    case (Some v)
    then have "mn \<le> v" "v \<le> mx"
      using that assms series_max_ge series_min_le by blast+
    then show ?thesis using Some scale_in_range [OF assms(3)] by (simp add: in_range_def)
  qed
  then show ?thesis by (simp add: bounded_col_def scale_def)
qed

lemma bounded_reindex: "bounded_col c \<Longrightarrow> bounded_col (reindex labels c)"
  by (cases c) (auto simp: bounded_col_def pick_def in_range_def)

lemma set_set_column: "set (set_column t name c) \<subseteq> insert (name, c) (set t)"
  by (auto simp: set_column_def)

lemma bounded_set_column:
  assumes "\<forall>nc \<in> set t. bounded_col (snd nc)" and "bounded_col c"
  shows "\<forall>nc \<in> set (set_column t name c). bounded_col (snd nc)"
  using assms set_set_column [of t name c] by auto

lemma bounded_setitem_series:
  assumes "bounded_frame f" and "bounded_col s"
  shows "bounded_frame (setitem_series f name s)"
proof -
  define f' where "f' = (if index f = [] \<and> 0 < col_len s
                then \<lparr>index = [0..<col_len s],
                      cols = map (\<lambda>nc. (fst nc, reindex [0..<col_len s] (snd nc))) (cols f)\<rparr>
                else f)"
  have "\<forall>nc \<in> set (cols f'). bounded_col (snd nc)"
    using assms(1) by (auto simp: f'_def bounded_frame_def bounded_reindex)
  moreover have "bounded_col (reindex (index f') s)"
    using assms(2) by (rule bounded_reindex)
  ultimately have "\<forall>nc \<in> set (set_column (cols f') name (reindex (index f') s)). bounded_col (snd nc)"
    by (rule bounded_set_column)
  then show ?thesis
    by (simp add: bounded_frame_def setitem_series_def f'_def [symmetric] Let_def)
qed

lemma bounded_setitem_scalar:
  assumes "bounded_frame f"
  shows "bounded_frame (setitem_scalar f name 0)"
proof -
  have "bounded_col (NumCol (replicate (length (index f)) (Some 0)))"
    by (simp add: bounded_col_def in_range_def)
  then show ?thesis
    using assms bounded_set_column unfolding bounded_frame_def setitem_scalar_def by simp
qed

lemma normalize_all_bounded:
  "normalize_all df ps f = Inr f' \<Longrightarrow> bounded_frame f \<Longrightarrow> bounded_frame f'"
proof (induction df ps f rule: normalize_all.induct)
  case (1 df normalized)
  then show ?case by simp
next
  case (2 df pollutant rest normalized)
  from "2.prems"(1) obtain xs where xs: "map_of df pollutant = Some (NumCol xs)"
    by (auto split: option.splits column.splits)
  show ?case
  proof (cases "gt (series_max xs) (series_min xs)")
    case True
    then obtain mx mn where mm: "series_max xs = Some mx" "series_min xs = Some mn" "mn < mx"
      by (cases "series_max xs"; cases "series_min xs") auto
    then have "bounded_frame (setitem_series normalized pollutant (NumCol (scale mn mx xs)))"
      using "2.prems"(2) scale_bounded bounded_setitem_series by blast
    moreover have "normalize_all df rest (setitem_series normalized pollutant (NumCol (scale mn mx xs))) = Inr f'"
      using "2.prems"(1) xs True mm by simp
    ultimately show ?thesis
      using "2.IH"(1) [OF xs refl refl refl] True mm by simp
  next
    case False
    then have "normalize_all df rest (setitem_scalar normalized pollutant 0) = Inr f'"
      using "2.prems"(1) xs by simp
    then show ?thesis
      using "2.IH"(2) [OF xs refl refl refl] False "2.prems"(2) bounded_setitem_scalar by simp
  qed
qed

lemma float_columns_bounded:
  "\<forall>nc \<in> set t. bounded_col (snd nc) \<Longrightarrow> xs \<in> set (float_columns t) \<Longrightarrow> \<forall>x \<in> set xs. in_range x"
  by (induction t rule: float_columns.induct) (auto simp: bounded_col_def)

lemma row_max_bounded:
  assumes "bounded_frame f"
  shows "bounded_col (NumCol (row_max f))"
proof -
  have "in_range (series_max (map (\<lambda>xs. if r < length xs then xs ! r else None) (float_columns (cols f))))"
    for r
  proof (cases "series_max (map (\<lambda>xs. if r < length xs then xs ! r else None) (float_columns (cols f)))")
    case None
    then show ?thesis by (simp add: in_range_def)
  next
    case (Some m)
    then have "Some m \<in> set (map (\<lambda>xs. if r < length xs then xs ! r else None) (float_columns (cols f)))"
      by (rule series_max_in)
    then obtain xs where "xs \<in> set (float_columns (cols f))" "r < length xs" "xs ! r = Some m"
      by (auto split: if_splits)
    then have "in_range (Some m)"
      using assms float_columns_bounded [of "cols f" xs] nth_mem [of r xs]
      by (auto simp: bounded_frame_def)
    then show ?thesis using Some by simp
  qed
  then show ?thesis by (simp add: bounded_col_def row_max_def)
qed

lemma aqi_scores_setitem:
  "aqi_scores (setitem_series f ''AQI'' (NumCol ys)) = pick (index (setitem_series f ''AQI'' (NumCol ys))) ys"
  by (simp add: aqi_scores_def setitem_series_def Let_def map_of_set_column)

text \<open>In the model, whose numbers are reals, a score that is not missing lies between
  \<open>0\<close> and \<open>100\<close>. The program computes in float64 and int64: there rounding and
  wrap-around can take a score out of that range, which this lemma does not see.\<close>

lemma calculate_aqi_bounded:
  assumes "calculate_aqi df = Inr out" and "Some y \<in> set (aqi_scores out)"
  shows "0 \<le> y \<and> y \<le> 100"
proof -
  from assms(1) obtain dt normalized where
    n: "normalize_all df (available_pollutants df) empty_frame = Inr normalized" and
    out: "out = setitem_series (setitem_series empty_frame ''DateTime'' dt) ''AQI'' (NumCol (row_max normalized))"
    by (auto simp: calculate_aqi_def Let_def split: sum.splits if_splits)
  have "bounded_frame empty_frame" by (simp add: bounded_frame_def empty_frame_def)
  then have "bounded_frame normalized" using normalize_all_bounded [OF n] by simp
  then have "\<forall>x \<in> set (row_max normalized). in_range x"
    using row_max_bounded by (simp add: bounded_col_def)
  then have "\<forall>x \<in> set (aqi_scores out). in_range x"
    unfolding out aqi_scores_setitem by (auto simp: pick_def in_range_def)
  then show ?thesis using assms(2) by (auto simp: in_range_def)
qed

subsection \<open>The constant column\<close>

text \<open>
  C2, at the failing input: the only candidate column is constant. Line 71 assigns the
  number \<open>0\<close> to the frame \<^verbatim>\<open>normalized\<close> while it has no rows, so the column it creates is
  empty, \<^verbatim>\<open>normalized.max(axis=1)\<close> is an empty series, and every row's score is missing
  instead of \<open>0\<close>.
\<close>

theorem calculate_aqi_constant_column:
  "calculate_aqi
     [(''DateTime'', ObjCol [Some ''2004-03-10 18:00:00'', Some ''2004-03-10 19:00:00'']),
      (''CO(GT)'', NumCol [Some 5, Some 5])]
   = Inr \<lparr>index = [0, 1],
          cols = [(''DateTime'', ObjCol [Some ''2004-03-10 18:00:00'', Some ''2004-03-10 19:00:00'']),
                  (''AQI'', NumCol [None, None])]\<rparr>"
  by (simp add: calculate_aqi_def getitem_def available_pollutants_def key_pollutants_def names_def
      setitem_series_def setitem_scalar_def empty_frame_def set_column_def series_max_def series_min_def
      dropna_def row_max_def pick_def Let_def)

text \<open>
  C10, at the failing input: CO(GT), the first candidate, has no value at all, and NOx(GT)
  has the values \<open>1\<close>, missing, \<open>3\<close>. The comparison of line 68 fails for CO(GT) and line 71
  runs, but on the frame that still has no rows: the column of CO(GT) is empty, becomes
  NaN in every row when NOx(GT) is stored, and the score of the second row is missing
  instead of \<open>0\<close>.
\<close>

theorem calculate_aqi_absent_column:
  "calculate_aqi
     [(''DateTime'', ObjCol [Some ''2004-03-10 18:00:00'', Some ''2004-03-10 19:00:00'', Some ''2004-03-10 20:00:00'']),
      (''CO(GT)'', NumCol [None, None, None]),
      (''NOx(GT)'', NumCol [Some 1, None, Some 3])]
   = Inr \<lparr>index = [0, 1, 2],
          cols = [(''DateTime'', ObjCol [Some ''2004-03-10 18:00:00'', Some ''2004-03-10 19:00:00'', Some ''2004-03-10 20:00:00'']),
                  (''AQI'', NumCol [Some 0, None, Some 100])]\<rparr>"
  by (simp add: calculate_aqi_def getitem_def available_pollutants_def key_pollutants_def names_def
      setitem_series_def setitem_scalar_def empty_frame_def set_column_def series_max_def series_min_def
      dropna_def row_max_def pick_def Let_def scale_def upt_rec)

section \<open>Properties of detect\_outliers\<close>

lemma sqrt_example: "sqrt (39204 / 25) = 198 / 5"
  by (rule real_sqrt_unique) (simp_all add: power2_eq_square)

lemma abs_zscores_example:
  "abs_zscores [Some 1, Some 1, Some 1, Some 1, Some 100]
     = [Some (1 / 2), Some (1 / 2), Some (1 / 2), Some (1 / 2), Some 2]"
  by (simp add: abs_zscores_def zscore_def dropna_def power2_eq_square sqrt_example)

lemma z_scores_example:
  "z_scores [Some 1, Some 1, Some 1, Some 1, Some 100]
     = [Some (1 / 2), Some (1 / 2), Some (1 / 2), Some (1 / 2), Some 2]"
  by (simp add: z_scores_def abs_zscores_example)

lemma z_score_mask_example:
  "z_score_mask [Some 1, Some 1, Some 1, Some 1, Some 100] = [False, False, False, False, False]"
  by (simp add: z_score_mask_def abs_zscores_example)

lemma unflagged_reindex: "unflagged (Some c) \<Longrightarrow> unflagged (Some (reindex labels c))"
  by (cases c) (auto simp: unflagged_def pick_def)

lemma unflagged_map_reindex:
  "unflagged c \<Longrightarrow> unflagged (map_option (reindex labels) c)"
  by (cases c) (simp add: unflagged_def, simp add: unflagged_reindex)

lemma setitem_series_other:
  "name' \<noteq> name \<Longrightarrow> unflagged (map_of (cols f) name')
     \<Longrightarrow> unflagged (map_of (cols (setitem_series f name s)) name')"
  by (auto simp: setitem_series_def Let_def map_of_set_column map_of_reindexed unflagged_map_reindex)

lemma setitem_series_same:
  "unflagged (Some s) \<Longrightarrow> unflagged (map_of (cols (setitem_series f name s)) name)"
  by (auto simp: setitem_series_def Let_def map_of_set_column unflagged_reindex)

lemma suffix_names_differ: "c' @ ''_z_score'' \<noteq> c @ ''_is_outlier''"
proof
  assume "c' @ ''_z_score'' = c @ ''_is_outlier''"
  then have "last (c' @ ''_z_score'') = last (c @ ''_is_outlier'')" by simp
  then show False by simp
qed

text \<open>Once the flags of the column are stored with no true cell, the rest of the second
  loop keeps them so; and the round of the column itself stores them.\<close>

lemma attach_scores_keeps:
  assumes col: "map_of df c = Some (NumCol [Some 1, Some 1, Some 1, Some 1, Some 100])"
  shows "unflagged (map_of (cols f) (c @ ''_is_outlier''))
     \<Longrightarrow> unflagged (map_of (cols (attach_scores df cs f)) (c @ ''_is_outlier''))"
proof (induction cs arbitrary: f)
  case Nil
  then show ?case by simp
next
  case (Cons c' cs)
  show ?case
  proof (cases "checked df c'")
    case None
    then show ?thesis using Cons by simp
  next
    case (Some xs)
    let ?z = "z_scores xs"
    let ?f1 = "setitem_series f (c' @ ''_z_score'') (NumCol ?z)"
    let ?f2 = "setitem_series ?f1 (c' @ ''_is_outlier'') (BoolCol (map (\<lambda>v. Some (exceeds v)) ?z))"
    have f1: "unflagged (map_of (cols ?f1) (c @ ''_is_outlier''))"
      using Cons.prems suffix_names_differ [of c' c] by (auto intro: setitem_series_other)
    have f2: "unflagged (map_of (cols ?f2) (c @ ''_is_outlier''))"
    proof (cases "c' = c")
      case True
      then have "xs = [Some 1, Some 1, Some 1, Some 1, Some 100]"
        using Some col by (simp add: checked_def)
      then have "unflagged (Some (BoolCol (map (\<lambda>v. Some (exceeds v)) ?z)))"
        by (simp add: z_scores_example unflagged_def)
      then show ?thesis using True setitem_series_same by blast
    next
      case False
      then have "c @ ''_is_outlier'' \<noteq> c' @ ''_is_outlier''" by simp
      then show ?thesis using f1 by (rule setitem_series_other)
    qed
    show ?thesis using Some Cons.IH [OF f2] by (simp add: Let_def)
  qed
qed

lemma attach_scores_sets:
  assumes col: "map_of df c = Some (NumCol [Some 1, Some 1, Some 1, Some 1, Some 100])"
  shows "c \<in> set cs \<Longrightarrow> unflagged (map_of (cols (attach_scores df cs f)) (c @ ''_is_outlier''))"
proof (induction cs arbitrary: f)
  case Nil
  then show ?case by simp
next
  case (Cons c' cs)
  show ?case
  proof (cases "c' = c")
    case True
    let ?z = "z_scores [Some 1, Some 1, Some 1, Some 1, Some 100]"
    let ?f1 = "setitem_series f (c @ ''_z_score'') (NumCol ?z)"
    let ?f2 = "setitem_series ?f1 (c @ ''_is_outlier'') (BoolCol (map (\<lambda>v. Some (exceeds v)) ?z))"
    have "unflagged (Some (BoolCol (map (\<lambda>v. Some (exceeds v)) ?z)))"
      by (simp add: z_scores_example unflagged_def)
    then have "unflagged (map_of (cols ?f2) (c @ ''_is_outlier''))"
      using setitem_series_same by blast
    then have "unflagged (map_of (cols (attach_scores df cs ?f2)) (c @ ''_is_outlier''))"
      by (rule attach_scores_keeps [OF col])
    then show ?thesis using True col by (simp add: checked_def Let_def)
  next
    case False
    then have "c \<in> set cs" using Cons.prems by simp
    then show ?thesis using Cons.IH by (cases "checked df c'") (simp_all add: Let_def)
  qed
qed

lemma unflagged_flagged:
  "unflagged (map_of (cols f) (c @ ''_is_outlier'')) \<Longrightarrow> flagged f c = []"
  by (auto simp: unflagged_def flagged_def filter_empty_conv split: option.splits column.splits
      dest: set_zip_rightD)

text \<open>
  C3, as the claim states it, fails: for the values \<open>1, 1, 1, 1, 100\<close> the mean is \<open>20.8\<close>
  and the population standard deviation \<open>39.6\<close>, so the absolute scores are \<open>0.5\<close> four
  times and \<open>2\<close>, and the mask of lines 99 to 101 is false in every row, the row of \<open>100\<close>
  included.
\<close>

theorem detect_outliers_scenario_counterexample:
  "z_scores [Some 1, Some 1, Some 1, Some 1, Some 100]
     = [Some (1 / 2), Some (1 / 2), Some (1 / 2), Some (1 / 2), Some 2]
   \<and> z_score_mask [Some 1, Some 1, Some 1, Some 1, Some 100] = [False, False, False, False, False]"
  by (simp add: z_scores_example z_score_mask_example)

text \<open>
  C3, amended. For an input table in which a checked column has the values
  \<open>1, 1, 1, 1, 100\<close>, the table that \<^verbatim>\<open>detect_outliers\<close> returns flags no row as an outlier
  for that column.
\<close>

theorem detect_outliers_scenario:
  assumes "map_of df c = Some (NumCol [Some 1, Some 1, Some 1, Some 1, Some 100])"
    and "case columns of None \<Rightarrow> True | Some cs \<Rightarrow> c \<in> set cs"
  shows "flagged (detect_outliers df columns) c = []"
proof -
  let ?cs = "case columns of None \<Rightarrow> numeric_columns df | Some cs \<Rightarrow> cs"
  have "(c, NumCol [Some 1, Some 1, Some 1, Some 1, Some 100]) \<in> set df"
    using assms(1) by (rule map_of_SomeD)
  then have "c \<in> set (numeric_columns df)"
    by (force simp: numeric_columns_def)
  then have "c \<in> set ?cs" using assms(2) by (cases columns) auto
  then show ?thesis
    using attach_scores_sets [OF assms(1)] unflagged_flagged
    by (simp add: detect_outliers_def Let_def)
qed

theorem detect_outliers_scenario_witness:
  "map_of [(''CO(GT)'', NumCol [Some 1, Some 1, Some 1, Some 1, Some 100])] ''CO(GT)''
     = Some (NumCol [Some 1, Some 1, Some 1, Some 1, Some 100])
   \<and> ''CO(GT)'' \<in> set [''CO(GT)'']
   \<and> flagged (detect_outliers [(''CO(GT)'', NumCol [Some 1, Some 1, Some 1, Some 1, Some 100])]
                 (Some [''CO(GT)''])) ''CO(GT)'' = []"
proof -
  have a: "map_of [(''CO(GT)'', NumCol [Some 1, Some 1, Some 1, Some 1, Some 100])] ''CO(GT)''
     = Some (NumCol [Some 1, Some 1, Some 1, Some 1, Some 100])" by simp
  have b: "case Some [''CO(GT)''] of None \<Rightarrow> True | Some cs \<Rightarrow> ''CO(GT)'' \<in> set cs" by simp
  from detect_outliers_scenario [OF a b] a show ?thesis by simp
qed

section \<open>Properties of perform\_time\_analysis\<close>

lemma aggregate_keys: "map fst (aggregate df numeric_cols rk ks) = ks"
  by (simp add: aggregate_def comp_def)

lemma daily_analysis_month:
  "daily_analysis df numeric_cols = (r, df1) \<Longrightarrow> map_of df1 ''Month'' = map_of df ''Month''"
  by (auto simp: daily_analysis_def Let_def map_of_set_column split: option.splits if_splits)

lemma daily_analysis_produced:
  "daily_analysis df numeric_cols = (Inr daily_df, df1) \<Longrightarrow>
     (daily_df \<noteq> None \<longleftrightarrow> ''Day'' \<in> set (names df))"
  by (auto simp: daily_analysis_def Let_def names_iff split: option.splits if_splits)

lemma monthly_analysis_produced:
  "monthly_analysis df numeric_cols = (Inr monthly_df, df2) \<Longrightarrow> map_of df ''Month'' = Some month \<Longrightarrow>
     (monthly_df \<noteq> None \<longleftrightarrow> 1 < nunique month) \<and>
     (\<forall>m. monthly_df = Some m \<longrightarrow> subseq (map fst (rows m)) (map StrKey month_order))"
  by (auto simp: monthly_analysis_def Let_def aggregate_keys observed_def subseq_map
      split: if_splits)

text \<open>
  C7, as the claim states it, fails: a table with the columns DateTime, Hour and Month,
  all of its rows in March, has no Day column; line 146 then skips the daily table, and
  the result holds the hourly table only.
\<close>

theorem perform_time_analysis_no_day_counterexample:
  "perform_time_analysis
     [(''DateTime'', ObjCol [Some ''2004-03-10 18:00:00'', Some ''2004-03-11 18:00:00'']),
      (''CO(GT)'', NumCol [Some 2, Some 4]),
      (''Hour'', NumCol [Some 18, Some 18]),
      (''Month'', ObjCol [Some ''March'', Some ''March''])]
  = (Inr \<lparr>hourly = Some \<lparr>key_name = ''Hour'', value_names = [''CO(GT)''], rows = [(NumKey 18, [Some 3])]\<rparr>,
          daily = None,
          monthly = None\<rparr>,
     [(''DateTime'', ObjCol [Some ''2004-03-10 18:00:00'', Some ''2004-03-11 18:00:00'']),
      (''CO(GT)'', NumCol [Some 2, Some 4]),
      (''Hour'', NumCol [Some 18, Some 18]),
      (''Month'', ObjCol [Some ''March'', Some ''March''])])"
  by code_simp

text \<open>
  C7, amended. Whenever \<^verbatim>\<open>perform_time_analysis\<close> returns a result for a table with a
  Month column, the result holds a monthly table if and only if the Month column has
  strictly more than one distinct value; the rows of a monthly table follow the order
  January to December; the hourly table is in the result, and the daily table is in the
  result if and only if the table has a Day column.
\<close>

theorem perform_time_analysis_monthly:
  assumes "perform_time_analysis df = (Inr res, df')"
    and "map_of df ''Month'' = Some month"
  shows "(monthly res \<noteq> None \<longleftrightarrow> 1 < nunique month) \<and>
         (\<forall>m. monthly res = Some m \<longrightarrow> subseq (map fst (rows m)) (map StrKey month_order)) \<and>
         hourly res \<noteq> None \<and>
         (daily res \<noteq> None \<longleftrightarrow> ''Day'' \<in> set (names df))"
proof -
  let ?nc = "filter (\<lambda>col. col \<notin> {''Hour'', ''Day'', ''Month''}) (numeric_columns df)"
  from assms(1) obtain hour daily_df df1 monthly_df where
    d: "daily_analysis df ?nc = (Inr daily_df, df1)" and
    m: "monthly_analysis df1 ?nc = (Inr monthly_df, df')" and
    r: "res = \<lparr>hourly = Some (\<lparr>key_name = ''Hour'', value_names = ?nc,
              rows = aggregate df ?nc (row_keys hour) (group_keys hour)\<rparr>),
            daily = daily_df, monthly = monthly_df\<rparr>"
    by (auto simp: perform_time_analysis_def Let_def
        split: if_splits option.splits prod.splits sum.splits)
  have "map_of df1 ''Month'' = Some month"
    using daily_analysis_month [OF d] assms(2) by simp
  from monthly_analysis_produced [OF m this] daily_analysis_produced [OF d]
  show ?thesis by (simp add: r)
qed

theorem perform_time_analysis_monthly_witness:
  "monthly (\<lparr>hourly = Some \<lparr>key_name = ''Hour'', value_names = [''CO(GT)''],
                            rows = [(NumKey 18, [Some 4])]\<rparr>,
             daily = Some \<lparr>key_name = ''Day'', value_names = [''CO(GT)''],
                           rows = [(StrKey ''Monday'', [Some 6]), (StrKey ''Wednesday'', [Some 2])]\<rparr>,
             monthly = Some \<lparr>key_name = ''Month'', value_names = [''CO(GT)''],
                             rows = [(StrKey ''January'', [Some 6]), (StrKey ''March'', [Some 2])]\<rparr>\<rparr>) \<noteq> None
   \<longleftrightarrow> 1 < nunique (ObjCol [Some ''March'', Some ''January''])"
proof -
  let ?T = "[(''DateTime'', ObjCol [Some ''2004-03-10 18:00:00'', Some ''2004-01-05 18:00:00'']),
             (''CO(GT)'', NumCol [Some 2, Some 6]),
             (''Hour'', NumCol [Some 18, Some 18]),
             (''Day'', ObjCol [Some ''Wednesday'', Some ''Monday'']),
             (''Month'', ObjCol [Some ''March'', Some ''January''])]"
  have run: "perform_time_analysis ?T
    = (Inr \<lparr>hourly = Some \<lparr>key_name = ''Hour'', value_names = [''CO(GT)''],
                            rows = [(NumKey 18, [Some 4])]\<rparr>,
            daily = Some \<lparr>key_name = ''Day'', value_names = [''CO(GT)''],
                          rows = [(StrKey ''Monday'', [Some 6]), (StrKey ''Wednesday'', [Some 2])]\<rparr>,
            monthly = Some \<lparr>key_name = ''Month'', value_names = [''CO(GT)''],
                            rows = [(StrKey ''January'', [Some 6]), (StrKey ''March'', [Some 2])]\<rparr>\<rparr>,
       ?T @ [(''Day_cat'', CatCol day_order [Some ''Wednesday'', Some ''Monday'']),
             (''Month_cat'', CatCol month_order [Some ''March'', Some ''January''])])"
    by code_simp
  have month: "map_of ?T ''Month'' = Some (ObjCol [Some ''March'', Some ''January''])" by simp
  from perform_time_analysis_monthly [OF run month] show ?thesis by blast
qed

text \<open>
  C8. Without a DateTime column \<^verbatim>\<open>perform_time_analysis\<close> ends with the ValueError of
  line 135: no aggregate table is returned and the table is as it was.
\<close>

theorem perform_time_analysis_requires_datetime:
  "''DateTime'' \<notin> set (names df) \<Longrightarrow>
     perform_time_analysis df = (Inl (ValueError no_datetime_message), df)"
  by (simp add: perform_time_analysis_def)

theorem perform_time_analysis_requires_datetime_witness:
  "''DateTime'' \<notin> set (names [(''Hour'', NumCol [Some 18]), (''CO(GT)'', NumCol [Some 2])])
   \<and> perform_time_analysis [(''Hour'', NumCol [Some 18]), (''CO(GT)'', NumCol [Some 2])]
       = (Inl (ValueError no_datetime_message), [(''Hour'', NumCol [Some 18]), (''CO(GT)'', NumCol [Some 2])])"
proof -
  have h: "''DateTime'' \<notin> set (names [(''Hour'', NumCol [Some 18]), (''CO(GT)'', NumCol [Some 2])])"
    by (simp add: names_def)
  from perform_time_analysis_requires_datetime [OF h] h show ?thesis by simp
qed

text \<open>
  C9, at the failing input: a prepared table with a Day column. Line 151 stores the
  categorical \<open>Day_cat\<close> in the caller's table, so the table has one column more after
  the call than before it.
\<close>

theorem perform_time_analysis_adds_column:
  "perform_time_analysis
     [(''DateTime'', ObjCol [Some ''2004-03-10 18:00:00'', Some ''2004-03-11 18:00:00'']),
      (''CO(GT)'', NumCol [Some 2, Some 4]),
      (''Hour'', NumCol [Some 18, Some 18]),
      (''Day'', ObjCol [Some ''Wednesday'', Some ''Thursday'']),
      (''Month'', ObjCol [Some ''March'', Some ''March''])]
  = (Inr \<lparr>hourly = Some \<lparr>key_name = ''Hour'', value_names = [''CO(GT)''], rows = [(NumKey 18, [Some 3])]\<rparr>,
          daily = Some \<lparr>key_name = ''Day'', value_names = [''CO(GT)''],
                        rows = [(StrKey ''Wednesday'', [Some 2]), (StrKey ''Thursday'', [Some 4])]\<rparr>,
          monthly = None\<rparr>,
     [(''DateTime'', ObjCol [Some ''2004-03-10 18:00:00'', Some ''2004-03-11 18:00:00'']),
      (''CO(GT)'', NumCol [Some 2, Some 4]),
      (''Hour'', NumCol [Some 18, Some 18]),
      (''Day'', ObjCol [Some ''Wednesday'', Some ''Thursday'']),
      (''Month'', ObjCol [Some ''March'', Some ''March'']),
      (''Day_cat'', CatCol day_order [Some ''Wednesday'', Some ''Thursday''])])"
  by code_simp

end
